theory Spec2Isabelle
  imports Complex_Main "HOL-Library.Multiset"
begin

section \<open>Pizza value calculator: a shallow embedding of \<^verbatim>\<open>claude-code-script.py\<close>\<close>

text \<open>
  The script builds three \<^verbatim>\<open>Pizza\<close> objects, ranks them by area per euro, prints a
  report and a budget recommendation. The embedding follows the source function by
  function. Exceptions are values of a sum type (\<open>Inl\<close> the exception), printing is a
  list of report lines returned by the function.
\<close>

subsection \<open>Python floats\<close>

text \<open>
  A Python \<^verbatim>\<open>float\<close> is a finite number, an infinity or NaN. Finite numbers are
  idealised as reals: the arithmetic below is exact and unbounded, so the rounding,
  overflow and underflow of IEEE doubles are outside the model, and so is the sign of
  zero. The special values follow IEEE 754 as Python exposes it. A Python \<^verbatim>\<open>int\<close>
  that meets a float is converted to the finite float of the same value.
\<close>

datatype pyfloat = Finite real | PosInf | NegInf | NaN

datatype error = ValueError | IndexError | ZeroDivisionError | OverflowError

text \<open>The sign of a float that is not NaN, and the infinity (or NaN) of a sign.\<close>

fun fsign :: "pyfloat \<Rightarrow> real" where
  "fsign (Finite a) = sgn a"
| "fsign PosInf = 1"
| "fsign NegInf = - 1"
| "fsign NaN = 0"

definition inf_of_sign :: "real \<Rightarrow> pyfloat" where
  "inf_of_sign s = (if 0 < s then PosInf else if s < 0 then NegInf else NaN)"

text \<open>\<^verbatim>\<open>x * y\<close>: NaN is contagious, infinity times zero is NaN.\<close>

fun fmul :: "pyfloat \<Rightarrow> pyfloat \<Rightarrow> pyfloat" where
  "fmul (Finite a) (Finite b) = Finite (a * b)"
| "fmul NaN y = NaN"
| "fmul x NaN = NaN"
| "fmul x y = inf_of_sign (fsign x * fsign y)"

text \<open>
  \<^verbatim>\<open>x / y\<close>: Python raises \<^verbatim>\<open>ZeroDivisionError\<close> for every dividend when the
  divisor is zero; infinity by infinity is NaN, a finite number by an infinity is zero.
\<close>

fun truediv :: "pyfloat \<Rightarrow> pyfloat \<Rightarrow> error + pyfloat" where
  "truediv x (Finite b) =
     (if b = 0 then Inl ZeroDivisionError
      else case x of
        Finite a \<Rightarrow> Inr (Finite (a / b))
      | NaN \<Rightarrow> Inr NaN
      | _ \<Rightarrow> Inr (inf_of_sign (fsign x * sgn b)))"
| "truediv x NaN = Inr NaN"
| "truediv (Finite a) y = Inr (Finite 0)"
| "truediv x y = Inr NaN"

text \<open>\<^verbatim>\<open>x - y\<close>: infinities of the same sign cancel to NaN.\<close>

fun fsub :: "pyfloat \<Rightarrow> pyfloat \<Rightarrow> pyfloat" where
  "fsub (Finite a) (Finite b) = Finite (a - b)"
| "fsub NaN y = NaN"
| "fsub x NaN = NaN"
| "fsub (Finite a) PosInf = NegInf"
| "fsub (Finite a) NegInf = PosInf"
| "fsub PosInf PosInf = NaN"
| "fsub NegInf NegInf = NaN"
| "fsub x y = x"

text \<open>\<^verbatim>\<open>x ** 2\<close>.\<close>

fun fsquare :: "pyfloat \<Rightarrow> pyfloat" where
  "fsquare (Finite a) = Finite (a ^ 2)"
| "fsquare NaN = NaN"
| "fsquare x = PosInf"

text \<open>\<^verbatim>\<open>x > y\<close> and \<^verbatim>\<open>x < y\<close>: every comparison with NaN is false.\<close>

fun fgt :: "pyfloat \<Rightarrow> pyfloat \<Rightarrow> bool" where
  "fgt (Finite a) (Finite b) = (b < a)"
| "fgt NaN y = False"
| "fgt x NaN = False"
| "fgt PosInf y = (y \<noteq> PosInf)"
| "fgt x NegInf = (x \<noteq> NegInf)"
| "fgt x y = False"

definition flt :: "pyfloat \<Rightarrow> pyfloat \<Rightarrow> bool" where
  "flt x y = fgt y x"

text \<open>
  \<^verbatim>\<open>int(x)\<close> truncates towards zero; it raises \<^verbatim>\<open>OverflowError\<close> on an infinity
  and \<^verbatim>\<open>ValueError\<close> on NaN.
\<close>

fun py_int :: "pyfloat \<Rightarrow> error + int" where
  "py_int (Finite a) = Inr (if 0 \<le> a then \<lfloor>a\<rfloor> else \<lceil>a\<rceil>)"
| "py_int NaN = Inl ValueError"
| "py_int x = Inl OverflowError"

definition math_pi :: pyfloat where
  "math_pi = Finite pi"

subsection \<open>Python strings\<close>

text \<open>
  A \<^verbatim>\<open>str\<close> is a list of code points; the model has the code points below 256,
  and \<^verbatim>\<open>str.lower\<close>, \<^verbatim>\<open>str.strip\<close> and \<^verbatim>\<open>float\<close> are modelled as Python
  defines them on that range.
\<close>

definition code :: "char \<Rightarrow> nat" where
  "code c = of_char c"

text \<open>\<^verbatim>\<open>str.lower\<close>: A-Z, and the Latin-1 capitals except the multiplication sign.\<close>

definition lower_char :: "char \<Rightarrow> char" where
  "lower_char c =
     (if (65 \<le> code c \<and> code c \<le> 90) \<or> (192 \<le> code c \<and> code c \<le> 222 \<and> code c \<noteq> 215)
      then char_of (code c + 32) else c)"

definition lower :: "string \<Rightarrow> string" where
  "lower s = map lower_char s"

text \<open>The characters \<^verbatim>\<open>str.strip()\<close> removes (\<^verbatim>\<open>str.isspace\<close>).\<close>

definition is_space :: "char \<Rightarrow> bool" where
  "is_space c = ((9 \<le> code c \<and> code c \<le> 13) \<or> (28 \<le> code c \<and> code c \<le> 32)
                 \<or> code c = 133 \<or> code c = 160)"

definition strip :: "string \<Rightarrow> string" where
  "strip s = rev (dropWhile is_space (rev (dropWhile is_space s)))"

text \<open>\<^verbatim>\<open>s.replace('cm', '')\<close>: the occurrences are found from the left and do not overlap.\<close>

fun replace_cm :: "string \<Rightarrow> string" where
  "replace_cm (c # d # r) =
     (if c = CHR ''c'' \<and> d = CHR ''m'' then replace_cm r else c # replace_cm (d # r))"
| "replace_cm s = s"

text \<open>\<^verbatim>\<open>s.split('x')\<close>: one part more than there are separators.\<close>

fun split_x :: "string \<Rightarrow> string list" where
  "split_x [] = [[]]"
| "split_x (c # r) =
     (if c = CHR ''x'' then [] # split_x r
      else case split_x r of p # ps \<Rightarrow> (c # p) # ps | [] \<Rightarrow> [[c]])"

subsection \<open>The built-in \<^verbatim>\<open>float(str)\<close>\<close>

text \<open>
  \<^verbatim>\<open>float\<close> strips white space (its own set: the ASCII white space, and the
  non-ASCII spaces, which it first turns into blanks), then reads
  \<^verbatim>\<open>[sign] (number [exponent] | "inf" | "infinity" | "nan")\<close>, letters in any case,
  where \<^verbatim>\<open>number\<close> is \<^verbatim>\<open>[digitpart] "." digitpart | digitpart ["."]\<close>, a
  \<^verbatim>\<open>digitpart\<close> is digits with single underscores between them, and the
  \<^verbatim>\<open>exponent\<close> is \<^verbatim>\<open>("e" | "E") [sign] digitpart\<close>. Anything else raises
  \<^verbatim>\<open>ValueError\<close>.
\<close>

definition float_space :: "char \<Rightarrow> bool" where
  "float_space c = ((9 \<le> code c \<and> code c \<le> 13) \<or> code c = 32 \<or> code c = 133 \<or> code c = 160)"

definition float_strip :: "string \<Rightarrow> string" where
  "float_strip s = rev (dropWhile float_space (rev (dropWhile float_space s)))"

definition is_digit :: "char \<Rightarrow> bool" where
  "is_digit c = (48 \<le> code c \<and> code c \<le> 57)"

definition is_dp_char :: "char \<Rightarrow> bool" where
  "is_dp_char c = (is_digit c \<or> c = CHR ''_'')"

fun valid_digitpart :: "string \<Rightarrow> bool" where
  "valid_digitpart [] = False"
| "valid_digitpart [c] = is_digit c"
| "valid_digitpart (c # d # r) =
     (is_digit c \<and> (if d = CHR ''_'' then valid_digitpart r else valid_digitpart (d # r)))"

text \<open>The number a digit part denotes, its underscores dropped.\<close>

definition digits_val :: "string \<Rightarrow> nat" where
  "digits_val s = foldl (\<lambda>a c. 10 * a + (code c - 48)) 0 (filter is_digit s)"

definition frac_len :: "string \<Rightarrow> nat" where
  "frac_len s = length (filter is_digit s)"

definition split_sign :: "string \<Rightarrow> bool \<times> string" where
  "split_sign s =
     (case s of
        [] \<Rightarrow> (False, [])
      | c # r \<Rightarrow> if c = CHR ''-'' then (True, r) else if c = CHR ''+'' then (False, r) else (False, s))"

definition parse_exponent :: "string \<Rightarrow> int option" where
  "parse_exponent s =
     (case s of
        [] \<Rightarrow> Some 0
      | c # r \<Rightarrow>
          if lower_char c = CHR ''e'' then
            (let (neg, d) = split_sign r in
             if valid_digitpart d
             then Some (if neg then - int (digits_val d) else int (digits_val d))
             else None)
          else None)"

definition scale10 :: "real \<Rightarrow> int \<Rightarrow> real" where
  "scale10 m e = (if 0 \<le> e then m * 10 ^ nat e else m / 10 ^ nat (- e))"

definition parse_number :: "string \<Rightarrow> real option" where
  "parse_number s =
     (let ip = takeWhile is_dp_char s;
          r1 = dropWhile is_dp_char s;
          (fp, r2) = (case r1 of
                        [] \<Rightarrow> ([], r1)
                      | c # r \<Rightarrow> if c = CHR ''.''
                                 then (takeWhile is_dp_char r, dropWhile is_dp_char r)
                                 else ([], r1))
      in if (ip = [] \<or> valid_digitpart ip) \<and> (fp = [] \<or> valid_digitpart fp)
            \<and> (ip \<noteq> [] \<or> fp \<noteq> [])
         then (case parse_exponent r2 of
                 None \<Rightarrow> None
               | Some e \<Rightarrow>
                   Some (scale10 (real (digits_val ip) + real (digits_val fp) / 10 ^ frac_len fp) e))
         else None)"

definition py_float :: "string \<Rightarrow> error + pyfloat" where
  "py_float s =
     (let (neg, r) = split_sign (float_strip s); l = lower r in
      if l = ''inf'' \<or> l = ''infinity'' then Inr (if neg then NegInf else PosInf)
      else if l = ''nan'' then Inr NaN
      else case parse_number r of
             None \<Rightarrow> Inl ValueError
           | Some v \<Rightarrow> Inr (Finite (if neg then - v else v)))"

subsection \<open>The class \<^verbatim>\<open>Pizza\<close>\<close>

text \<open>The \<^verbatim>\<open>size\<close> argument: a number (\<^verbatim>\<open>int\<close> or \<^verbatim>\<open>float\<close>) or a string.\<close>

datatype size_arg = Num pyfloat | Str string

record pizza =
  name :: string
  price :: pyfloat
  area :: pyfloat
  value_ratio :: pyfloat

text \<open>The circle branch, used twice in \<^verbatim>\<open>_calculate_area\<close>.\<close>

definition circle_area :: "pyfloat \<Rightarrow> error + pyfloat" where
  "circle_area diameter =
     (case truediv diameter (Finite 2) of
        Inl e \<Rightarrow> Inl e
      | Inr radius \<Rightarrow> Inr (fmul math_pi (fsquare radius)))"

text \<open>
  \<^verbatim>\<open>dimensions[0]\<close> and \<^verbatim>\<open>dimensions[1]\<close>: the index raises \<^verbatim>\<open>IndexError\<close>
  out of range.
\<close>

definition index :: "'a list \<Rightarrow> nat \<Rightarrow> error + 'a" where
  "index xs i = (if i < length xs then Inr (xs ! i) else Inl IndexError)"

definition calculate_area :: "size_arg \<Rightarrow> error + pyfloat" where
  "calculate_area size_arg =
     (case size_arg of
        Num d \<Rightarrow> circle_area d
      | Str s \<Rightarrow>
          (let size_str = strip (replace_cm (lower s)) in
           if CHR ''x'' \<in> set size_str then
             (let dimensions = split_x size_str in
              case index dimensions 0 of
                Inl e \<Rightarrow> Inl e
              | Inr d0 \<Rightarrow>
                 (case py_float (strip d0) of
                    Inl e \<Rightarrow> Inl e
                  | Inr width \<Rightarrow>
                     (case index dimensions 1 of
                        Inl e \<Rightarrow> Inl e
                      | Inr d1 \<Rightarrow>
                         (case py_float (strip d1) of
                            Inl e \<Rightarrow> Inl e
                          | Inr height \<Rightarrow> Inr (fmul width height)))))
           else
             (case py_float size_str of
                Inl e \<Rightarrow> Inl e
              | Inr diameter \<Rightarrow> circle_area diameter)))"

text \<open>\<^verbatim>\<open>Pizza.__init__\<close>: the object, or the exception of \<^verbatim>\<open>_calculate_area\<close>.\<close>

definition Pizza :: "string \<Rightarrow> size_arg \<Rightarrow> pyfloat \<Rightarrow> error + pizza" where
  "Pizza n s p =
     (case calculate_area s of
        Inl e \<Rightarrow> Inl e
      | Inr a \<Rightarrow>
          if fgt p (Finite 0) then
            (case truediv a p of
               Inl e \<Rightarrow> Inl e
             | Inr r \<Rightarrow> Inr \<lparr>name = n, price = p, area = a, value_ratio = r\<rparr>)
          else Inr \<lparr>name = n, price = p, area = a, value_ratio = Finite 0\<rparr>)"

subsection \<open>Ranking\<close>

text \<open>
  \<^verbatim>\<open>max(pizzas, key=...)\<close> keeps the first item and replaces it by a later one only
  when the later key is greater (\<^verbatim>\<open>>\<close>); it raises \<^verbatim>\<open>ValueError\<close> on an
  empty list.
\<close>

fun max_from :: "pizza \<Rightarrow> pizza list \<Rightarrow> pizza" where
  "max_from m [] = m"
| "max_from m (p # ps) =
     max_from (if fgt (value_ratio p) (value_ratio m) then p else m) ps"

definition find_best_pizza :: "pizza list \<Rightarrow> error + pizza" where
  "find_best_pizza pizzas =
     (case pizzas of [] \<Rightarrow> Inl ValueError | p # ps \<Rightarrow> Inr (max_from p ps))"

text \<open>
  \<^verbatim>\<open>sorted(pizzas, key=..., reverse=True)\<close>: Python reverses the list, sorts it
  ascending and stable, comparing keys with \<^verbatim>\<open><\<close> only, and reverses the result.
  The ascending sort is an insertion sort here; on keys without NaN every stable sort
  returns the same list. With a NaN among the keys the order Python returns depends on
  its sorting algorithm and is outside the model.
\<close>

fun insert_asc :: "pizza \<Rightarrow> pizza list \<Rightarrow> pizza list" where
  "insert_asc p [] = [p]"
| "insert_asc p (q # qs) =
     (if flt (value_ratio q) (value_ratio p) then q # insert_asc p qs else p # q # qs)"

fun sort_asc :: "pizza list \<Rightarrow> pizza list" where
  "sort_asc [] = []"
| "sort_asc (p # ps) = insert_asc p (sort_asc ps)"

definition sorted_reverse :: "pizza list \<Rightarrow> pizza list" where
  "sorted_reverse pizzas = rev (sort_asc (rev pizzas))"

subsection \<open>The report\<close>

text \<open>
  What \<^verbatim>\<open>print\<close> writes is a list of lines. A line carries the numbers it shows;
  their formatting to two decimals is not modelled.
\<close>

datatype line =
    Rule
  | Blank
  | Heading string
  | RankName nat string
  | AreaLine pyfloat
  | PriceLine pyfloat
  | ValueLine pyfloat
  | CostLine pyfloat
  | BestValue string
  | YouGet pyfloat
  | BudgetLine pyfloat
  | Buy int string
  | TotalArea pyfloat
  | Leftover pyfloat

text \<open>
  The loop of \<^verbatim>\<open>display_results\<close> from position \<open>i\<close>: the lines printed, and the
  exception that stopped it, if any (\<^verbatim>\<open>price / area\<close> divides by the area).
\<close>

fun print_ranked :: "nat \<Rightarrow> pizza list \<Rightarrow> line list \<times> error option" where
  "print_ranked i [] = ([], None)"
| "print_ranked i (p # ps) =
     (let shown = [RankName i (name p), AreaLine (area p), PriceLine (price p),
                   ValueLine (value_ratio p)]
      in case truediv (price p) (area p) of
           Inl e \<Rightarrow> (shown, Some e)
         | Inr c \<Rightarrow>
             (let (rest, r) = print_ranked (Suc i) ps
              in (shown @ [CostLine (fmul c (Finite 100)), Blank] @ rest, r)))"

definition display_results :: "pizza list \<Rightarrow> line list \<times> error option" where
  "display_results pizzas =
     (let sorted_pizzas = sorted_reverse pizzas;
          header = [Rule, Heading ''PIZZA VALUE ANALYSIS'', Rule, Blank];
          (body, r) = print_ranked 1 sorted_pizzas
      in case r of
           Some e \<Rightarrow> (header @ body, Some e)
         | None \<Rightarrow>
            (case index sorted_pizzas 0 of
               Inl e \<Rightarrow> (header @ body, Some e)
             | Inr best \<Rightarrow>
                 (header @ body @ [Rule, BestValue (name best), YouGet (value_ratio best), Rule],
                  None)))"

subsection \<open>The budget recommendation and \<^verbatim>\<open>main\<close>\<close>

text \<open>
  Lines 129 to 131 of \<^verbatim>\<open>main\<close>: \<^verbatim>\<open>num_pizzas\<close>, \<^verbatim>\<open>total_area\<close> and
  \<^verbatim>\<open>leftover\<close> for a budget and the best pizza.
\<close>

definition recommend :: "pyfloat \<Rightarrow> pizza \<Rightarrow> error + (int \<times> pyfloat \<times> pyfloat)" where
  "recommend budget best =
     (case truediv budget (price best) of
        Inl e \<Rightarrow> Inl e
      | Inr q \<Rightarrow>
         (case py_int q of
            Inl e \<Rightarrow> Inl e
          | Inr num_pizzas \<Rightarrow>
              Inr (num_pizzas,
                   fmul (Finite (of_int num_pizzas)) (area best),
                   fsub budget (fmul (Finite (of_int num_pizzas)) (price best)))))"

text \<open>The list literal of \<^verbatim>\<open>main\<close>; a constructor that raises ends the program.\<close>

definition main_pizzas :: "error + pizza list" where
  "main_pizzas =
     (case Pizza ''Small Pizza'' (Str ''26cm'') (Finite 4.80) of
        Inl e \<Rightarrow> Inl e
      | Inr p1 \<Rightarrow>
         (case Pizza ''Large Pizza'' (Str ''30cm'') (Finite 5.50) of
            Inl e \<Rightarrow> Inl e
          | Inr p2 \<Rightarrow>
             (case Pizza ''Party Pizza'' (Str ''46x33cm'') (Finite 13.00) of
                Inl e \<Rightarrow> Inl e
              | Inr p3 \<Rightarrow> Inr [p1, p2, p3])))"

definition main :: "line list \<times> error option" where
  "main =
     (case main_pizzas of
        Inl e \<Rightarrow> ([], Some e)
      | Inr pizzas \<Rightarrow>
         (let (out1, r) = display_results pizzas in
          case r of
            Some e \<Rightarrow> (out1, Some e)
          | None \<Rightarrow>
             (let out2 = out1 @ [Blank, Rule, Heading ''BUDGET RECOMMENDATIONS'', Rule] in
              case find_best_pizza pizzas of
                Inl e \<Rightarrow> (out2, Some e)
              | Inr best \<Rightarrow>
                 (let budget = Finite 20.00;
                      out3 = out2 @ [Blank, BudgetLine budget]
                  in case recommend budget best of
                       Inl e \<Rightarrow> (out3, Some e)
                     | Inr (num_pizzas, total_area, leftover) \<Rightarrow>
                         (out3 @ [Buy num_pizzas (name best), TotalArea total_area,
                                  Leftover leftover], None)))))"

subsection \<open>Vocabulary of the properties\<close>





text \<open>
  The three objects \<^verbatim>\<open>main\<close> builds, as \<^verbatim>\<open>Pizza.__init__\<close> computes them (see
  \<open>main_pizzas_eq\<close>).
\<close>

definition small_pizza :: pizza where
  "small_pizza = \<lparr>name = ''Small Pizza'', price = Finite 4.8, area = Finite (pi * 169),
                  value_ratio = Finite (pi * 169 / 4.8)\<rparr>"

definition large_pizza :: pizza where
  "large_pizza = \<lparr>name = ''Large Pizza'', price = Finite 5.5, area = Finite (pi * 225),
                  value_ratio = Finite (pi * 225 / 5.5)\<rparr>"

definition party_pizza :: pizza where
  "party_pizza = \<lparr>name = ''Party Pizza'', price = Finite 13, area = Finite 1518,
                  value_ratio = Finite (1518 / 13)\<rparr>"




text \<open>
  The characters that can stand in a numeral \<^verbatim>\<open>float\<close> accepts are no white space and,
  in either case, none of the letters c, m and x.
\<close>

definition literal_char :: "char \<Rightarrow> bool" where
  "literal_char c = (\<not> is_space c \<and> lower_char c \<noteq> CHR ''c'' \<and> lower_char c \<noteq> CHR ''m''
                     \<and> lower_char c \<noteq> CHR ''x'')"

section \<open>Properties\<close>

subsection \<open>The order of the float comparison\<close>








subsection \<open>Sorting and the maximum\<close>





















subsection \<open>Ranking: \<^verbatim>\<open>find_best_pizza\<close> and the sorted list of \<^verbatim>\<open>display_results\<close>\<close>





text \<open>
  Claim C10. On an empty list both ranking functions raise: \<^verbatim>\<open>find_best_pizza\<close>
  raises \<^verbatim>\<open>ValueError\<close> (from \<^verbatim>\<open>max\<close>), and \<^verbatim>\<open>display_results\<close> prints its
  header and raises \<^verbatim>\<open>IndexError\<close> at \<^verbatim>\<open>sorted_pizzas[0]\<close>. Neither returns a
  sentinel.
\<close>

theorem empty_collection_raises:
  "find_best_pizza [] = Inl ValueError
   \<and> display_results [] = ([Rule, Heading ''PIZZA VALUE ANALYSIS'', Rule, Blank], Some IndexError)"
  by (simp add: find_best_pizza_def display_results_def sorted_reverse_def index_def)

subsection \<open>The budget recommendation\<close>



subsection \<open>The exceptions of \<^verbatim>\<open>_calculate_area\<close>\<close>

lemma circle_area_total: "\<exists>a. circle_area d = Inr a"
  by (cases d) (simp_all add: circle_area_def)

lemma py_float_error: "py_float s = Inl e \<Longrightarrow> e = ValueError"
  by (auto simp: py_float_def Let_def split: prod.splits if_splits option.splits)

lemma split_x_not_Nil: "split_x s \<noteq> []"
  by (induction s) (auto split: list.splits)

lemma length_split_x: "CHR ''x'' \<in> set s \<Longrightarrow> 2 \<le> length (split_x s)"
proof (induction s)
  case Nil
  then show ?case by simp
next
  case (Cons c s)
  then show ?case
    using split_x_not_Nil [of s]
    by (cases "split_x s") (auto split: list.splits)
qed

lemma calculate_area_error: "calculate_area s = Inl e \<Longrightarrow> e = ValueError"
proof (cases s)
  case (Num d)
  assume "calculate_area s = Inl e"
  with Num circle_area_total [of d] show ?thesis by (auto simp: calculate_area_def)
next
  case (Str t)
  let ?u = "strip (replace_cm (lower t))"
  assume a: "calculate_area s = Inl e"
  show ?thesis
  proof (cases "CHR ''x'' \<in> set ?u")
    case True
    then have "2 \<le> length (split_x ?u)" by (rule length_split_x)
    then have "index (split_x ?u) 0 = Inr (split_x ?u ! 0)" "index (split_x ?u) 1 = Inr (split_x ?u ! 1)"
      by (auto simp: index_def)
    with a Str True show ?thesis
      by (auto simp: calculate_area_def Let_def split: sum.splits dest: py_float_error)
  next
    case False
    show ?thesis
    proof (cases "py_float ?u")
      case (Inl e')
      with a Str False have "e = e'" by (simp add: calculate_area_def)
      with Inl show ?thesis by (simp add: py_float_error)
    next
      case (Inr d)
      with a Str False circle_area_total [of d] show ?thesis
        by (auto simp: calculate_area_def)
    qed
  qed
qed

lemma truediv_positive: "fgt p (Finite 0) \<Longrightarrow> \<exists>r. truediv a p = Inr r"
  by (cases p; cases a) auto


subsection \<open>The descriptors of \<^verbatim>\<open>main\<close>, evaluated\<close>

lemma norm_26cm: "strip (replace_cm (lower ''26cm'')) = ''26''" by code_simp
lemma norm_30cm: "strip (replace_cm (lower ''30cm'')) = ''30''" by code_simp
lemma norm_46x33cm: "strip (replace_cm (lower ''46x33cm'')) = ''46x33''" by code_simp
lemma split_46x33: "split_x ''46x33'' = [''46'', ''33'']" by code_simp
lemma strip_46: "strip ''46'' = ''46''" by code_simp
lemma strip_33: "strip ''33'' = ''33''" by code_simp
lemma float_26: "py_float ''26'' = Inr (Finite 26)" by code_simp
lemma float_30: "py_float ''30'' = Inr (Finite 30)" by code_simp
lemma float_46: "py_float ''46'' = Inr (Finite 46)" by code_simp
lemma float_33: "py_float ''33'' = Inr (Finite 33)" by code_simp

lemma area_26cm: "calculate_area (Str ''26cm'') = Inr (Finite (pi * 169))"
  by (simp add: calculate_area_def norm_26cm float_26 circle_area_def math_pi_def)

lemma area_30cm: "calculate_area (Str ''30cm'') = Inr (Finite (pi * 225))"
  by (simp add: calculate_area_def norm_30cm float_30 circle_area_def math_pi_def)

lemma area_46x33cm: "calculate_area (Str ''46x33cm'') = Inr (Finite 1518)"
  by (simp add: calculate_area_def norm_46x33cm split_46x33 strip_46 strip_33 float_46 float_33
      index_def)


subsection \<open>The value ratio\<close>

text \<open>
  Claim C6. For every construction whose area is computed, \<^verbatim>\<open>value_ratio\<close> is
  \<^verbatim>\<open>area / price\<close> when the price is positive and 0 when the price is 0: a zero
  price gives ratio 0, and no construction raises \<^verbatim>\<open>ZeroDivisionError\<close>.
\<close>

theorem value_ratio_by_price:
  "(calculate_area s = Inr a \<and> fgt p (Finite 0) \<longrightarrow>
      (\<exists>r. truediv a p = Inr r
         \<and> Pizza n s p = Inr \<lparr>name = n, price = p, area = a, value_ratio = r\<rparr>))
   \<and> (calculate_area s = Inr (Finite x) \<and> 0 < y \<longrightarrow>
      Pizza n s (Finite y)
        = Inr \<lparr>name = n, price = Finite y, area = Finite x, value_ratio = Finite (x / y)\<rparr>)
   \<and> (calculate_area s = Inr a \<longrightarrow>
      Pizza n s (Finite 0) = Inr \<lparr>name = n, price = Finite 0, area = a, value_ratio = Finite 0\<rparr>)
   \<and> Pizza n s p \<noteq> Inl ZeroDivisionError"
proof -
  have "Pizza n s p \<noteq> Inl ZeroDivisionError"
  proof
    assume z: "Pizza n s p = Inl ZeroDivisionError"
    show False
    proof (cases "calculate_area s")
      case (Inl e)
      with z have "e = ZeroDivisionError" by (simp add: Pizza_def)
      with Inl calculate_area_error show False by blast
    next
      case (Inr a)
      with z truediv_positive [of p a] show False
        by (auto simp: Pizza_def split: if_splits)
    qed
  qed
  moreover have "calculate_area s = Inr a \<and> fgt p (Finite 0) \<longrightarrow>
      (\<exists>r. truediv a p = Inr r
         \<and> Pizza n s p = Inr \<lparr>name = n, price = p, area = a, value_ratio = r\<rparr>)"
    using truediv_positive [of p a] by (auto simp: Pizza_def)
  ultimately show ?thesis by (auto simp: Pizza_def)
qed

theorem value_ratio_by_price_witness:
  "calculate_area (Str ''46x33cm'') = Inr (Finite 1518) \<and> fgt (Finite 13) (Finite 0)
   \<and> (0::real) < 13
   \<and> Pizza ''Party Pizza'' (Str ''46x33cm'') (Finite 13)
       = Inr \<lparr>name = ''Party Pizza'', price = Finite 13, area = Finite 1518,
               value_ratio = Finite (1518 / 13)\<rparr>
   \<and> Pizza ''Party Pizza'' (Str ''46x33cm'') (Finite 0)
       = Inr \<lparr>name = ''Party Pizza'', price = Finite 0, area = Finite 1518,
               value_ratio = Finite 0\<rparr>"
  using value_ratio_by_price [of "Str ''46x33cm''" "Finite 1518" "Finite 13" "''Party Pizza''" 1518 13]
    area_46x33cm
  by simp

subsection \<open>Bounds on \<open>\<pi>\<close>\<close>

text \<open>Machin's formula and the alternating series of the arc tangent.\<close>

lemma arctan_series_bounds:
  fixes x :: real
  assumes "0 < x" and "x \<le> 1"
  shows "(\<Sum>i<2 * n. (- 1) ^ i * (1 / real (i * 2 + 1) * x ^ (i * 2 + 1))) \<le> arctan x"
    and "arctan x \<le> (\<Sum>i<2 * n + 1. (- 1) ^ i * (1 / real (i * 2 + 1) * x ^ (i * 2 + 1)))"
proof -
  let ?a = "\<lambda>n. 1 / real (n * 2 + 1) * x ^ (n * 2 + 1)"
  have abs: "\<bar>x\<bar> \<le> 1" using assms by simp
  have "0 < ?a 0" using assms by simp
  with summable_Leibniz(2) [OF zeroseq_arctan_series [OF abs] monoseq_arctan_series [OF abs]]
  have "(\<Sum>i. (- 1) ^ i * ?a i) \<in> {\<Sum>i<2 * n. (- 1) ^ i * ?a i .. \<Sum>i<2 * n + 1. (- 1) ^ i * ?a i}"
    by blast
  then show "(\<Sum>i<2 * n. (- 1) ^ i * ?a i) \<le> arctan x"
    and "arctan x \<le> (\<Sum>i<2 * n + 1. (- 1) ^ i * ?a i)"
    using arctan_series [OF abs] by simp_all
qed

lemma arctan_fifth_lower: "(3158328956 / 16000000000 :: real) \<le> arctan (1 / 5)"
proof -
  have "(\<Sum>i<2 * 3. (- 1) ^ i * (1 / real (i * 2 + 1) * (1 / 5 :: real) ^ (i * 2 + 1))) \<le> arctan (1 / 5)"
    by (rule arctan_series_bounds) simp_all
  moreover have "(3158328956 / 16000000000 :: real)
      \<le> (\<Sum>i<2 * 3. (- 1) ^ i * (1 / real (i * 2 + 1) * (1 / 5 :: real) ^ (i * 2 + 1)))"
    by (simp add: lessThan_nat_numeral power_divide)
  ultimately show ?thesis by linarith
qed

lemma arctan_fifth_upper: "arctan (1 / 5) \<le> (3158328958 / 16000000000 :: real)"
proof -
  have "arctan (1 / 5) \<le> (\<Sum>i<2 * 3 + 1. (- 1) ^ i * (1 / real (i * 2 + 1) * (1 / 5 :: real) ^ (i * 2 + 1)))"
    by (rule arctan_series_bounds) simp_all
  moreover have "(\<Sum>i<2 * 3 + 1. (- 1) ^ i * (1 / real (i * 2 + 1) * (1 / 5 :: real) ^ (i * 2 + 1)))
      \<le> (3158328958 / 16000000000 :: real)"
    by (simp add: lessThan_nat_numeral power_divide)
  ultimately show ?thesis by linarith
qed


lemma arctan_239_lower: "(16736304007 / 4000000000000 :: real) \<le> arctan (1 / 239)"
proof -
  have "(\<Sum>i<2 * 1. (- 1) ^ i * (1 / real (i * 2 + 1) * (1 / 239 :: real) ^ (i * 2 + 1))) \<le> arctan (1 / 239)"
    by (rule arctan_series_bounds) simp_all
  moreover have "(16736304007 / 4000000000000 :: real)
      \<le> (\<Sum>i<2 * 1. (- 1) ^ i * (1 / real (i * 2 + 1) * (1 / 239 :: real) ^ (i * 2 + 1)))"
    by (simp add: lessThan_nat_numeral power_divide)
  ultimately show ?thesis by linarith
qed

lemma arctan_239_upper: "arctan (1 / 239) \<le> (16736304009 / 4000000000000 :: real)"
proof -
  have "arctan (1 / 239) \<le> (\<Sum>i<2 * 1 + 1. (- 1) ^ i * (1 / real (i * 2 + 1) * (1 / 239 :: real) ^ (i * 2 + 1)))"
    by (rule arctan_series_bounds) simp_all
  moreover have "(\<Sum>i<2 * 1 + 1. (- 1) ^ i * (1 / real (i * 2 + 1) * (1 / 239 :: real) ^ (i * 2 + 1)))
      \<le> (16736304009 / 4000000000000 :: real)"
    by (simp add: lessThan_nat_numeral power_divide)
  ultimately show ?thesis by linarith
qed

lemma pi_bounds: "3.14159265 < pi \<and> pi < 3.14159266"
proof -
  have "pi = 16 * arctan (1 / 5) - 4 * arctan (1 / 239)"
    using machin by simp
  then show ?thesis
    using arctan_fifth_lower arctan_fifth_upper arctan_239_lower arctan_239_upper
    by simp
qed

subsection \<open>The run of \<^verbatim>\<open>main\<close>\<close>

lemma main_pizzas_eq: "main_pizzas = Inr [small_pizza, large_pizza, party_pizza]"
  by (simp add: main_pizzas_def Pizza_def area_26cm area_30cm area_46x33cm
      small_pizza_def large_pizza_def party_pizza_def)

lemma ratio_order:
  "pi * 169 / 4.8 < 1518 / 13" "1518 / 13 < pi * 225 / 5.5" "pi * 169 / 4.8 < pi * 225 / 5.5"
  using pi_bounds by simp_all

lemma sorted_main: "sorted_reverse [small_pizza, large_pizza, party_pizza]
   = [large_pizza, party_pizza, small_pizza]"
  using ratio_order
  by (simp add: sorted_reverse_def flt_def small_pizza_def large_pizza_def party_pizza_def)

lemma best_main: "find_best_pizza [small_pizza, large_pizza, party_pizza] = Inr large_pizza"
  using ratio_order
  by (simp add: find_best_pizza_def small_pizza_def large_pizza_def party_pizza_def)

lemma recommend_main: "recommend (Finite 20) large_pizza = Inr (3, Finite (3 * (pi * 225)), Finite 3.5)"
proof -
  have "\<lfloor>(20::real) / 5.5\<rfloor> = 3" by (simp add: floor_eq_iff)
  then show ?thesis by (simp add: recommend_def large_pizza_def)
qed


lemma display_main:
  "display_results [small_pizza, large_pizza, party_pizza]
   = ([Rule, Heading ''PIZZA VALUE ANALYSIS'', Rule, Blank,
       RankName 1 ''Large Pizza'', AreaLine (Finite (pi * 225)), PriceLine (Finite 5.5),
       ValueLine (Finite (pi * 225 / 5.5)), CostLine (Finite (5.5 / (pi * 225) * 100)), Blank,
       RankName 2 ''Party Pizza'', AreaLine (Finite 1518), PriceLine (Finite 13),
       ValueLine (Finite (1518 / 13)), CostLine (Finite (13 / 1518 * 100)), Blank,
       RankName 3 ''Small Pizza'', AreaLine (Finite (pi * 169)), PriceLine (Finite 4.8),
       ValueLine (Finite (pi * 169 / 4.8)), CostLine (Finite (4.8 / (pi * 169) * 100)), Blank,
       Rule, BestValue ''Large Pizza'', YouGet (Finite (pi * 225 / 5.5)), Rule], None)"
  by (simp add: display_results_def sorted_main index_def)
     (simp add: small_pizza_def large_pizza_def party_pizza_def)

lemma main_output:
  "main
   = ([Rule, Heading ''PIZZA VALUE ANALYSIS'', Rule, Blank,
       RankName 1 ''Large Pizza'', AreaLine (Finite (pi * 225)), PriceLine (Finite 5.5),
       ValueLine (Finite (pi * 225 / 5.5)), CostLine (Finite (5.5 / (pi * 225) * 100)), Blank,
       RankName 2 ''Party Pizza'', AreaLine (Finite 1518), PriceLine (Finite 13),
       ValueLine (Finite (1518 / 13)), CostLine (Finite (13 / 1518 * 100)), Blank,
       RankName 3 ''Small Pizza'', AreaLine (Finite (pi * 169)), PriceLine (Finite 4.8),
       ValueLine (Finite (pi * 169 / 4.8)), CostLine (Finite (4.8 / (pi * 169) * 100)), Blank,
       Rule, BestValue ''Large Pizza'', YouGet (Finite (pi * 225 / 5.5)), Rule,
       Blank, Rule, Heading ''BUDGET RECOMMENDATIONS'', Rule,
       Blank, BudgetLine (Finite 20),
       Buy 3 ''Large Pizza'', TotalArea (Finite (3 * (pi * 225))), Leftover (Finite 3.5)], None)"
  by (simp add: main_def main_pizzas_eq display_main best_main recommend_main)
     (simp add: large_pizza_def)

lemma approx:
  "\<bar>pi * 169 - 530.93\<bar> < 0.005" "\<bar>pi * 225 - 706.86\<bar> < 0.005"
  "\<bar>pi * 169 / 4.8 - 110.61\<bar> < 0.005" "\<bar>pi * 225 / 5.5 - 128.52\<bar> < 0.005"
  "\<bar>(1518::real) / 13 - 116.77\<bar> < 0.005" "\<bar>3 * (pi * 225) - 2120.58\<bar> < 0.005"
  using pi_bounds by (simp_all add: abs_less_iff)

text \<open>
  Claim C1. For the data of \<^verbatim>\<open>main\<close> the areas are 530.93, 706.86 and 1518.00 and
  the ratios 110.61, 128.52 and 116.77, each to half a unit of the second decimal; the
  best item is the Large Pizza; with the budget 20.00 the count is 3, the total area
  2120.58 (to the same accuracy) and the leftover 3.50.
\<close>

theorem main_scenario:
  "main_pizzas = Inr [small_pizza, large_pizza, party_pizza]
   \<and> area small_pizza = Finite (pi * 169) \<and> \<bar>pi * 169 - 530.93\<bar> < 0.005
   \<and> area large_pizza = Finite (pi * 225) \<and> \<bar>pi * 225 - 706.86\<bar> < 0.005
   \<and> area party_pizza = Finite 1518
   \<and> value_ratio small_pizza = Finite (pi * 169 / 4.8) \<and> \<bar>pi * 169 / 4.8 - 110.61\<bar> < 0.005
   \<and> value_ratio large_pizza = Finite (pi * 225 / 5.5) \<and> \<bar>pi * 225 / 5.5 - 128.52\<bar> < 0.005
   \<and> value_ratio party_pizza = Finite (1518 / 13) \<and> \<bar>(1518::real) / 13 - 116.77\<bar> < 0.005
   \<and> find_best_pizza [small_pizza, large_pizza, party_pizza] = Inr large_pizza
   \<and> name large_pizza = ''Large Pizza''
   \<and> recommend (Finite 20) large_pizza = Inr (3, Finite (3 * (pi * 225)), Finite 3.5)
   \<and> \<bar>3 * (pi * 225) - 2120.58\<bar> < 0.005
   \<and> snd main = None
   \<and> drop 32 (fst main)
       = [Buy 3 ''Large Pizza'', TotalArea (Finite (3 * (pi * 225))), Leftover (Finite 3.5)]"
  using main_pizzas_eq best_main recommend_main approx
  by (simp add: main_output) (simp add: small_pizza_def large_pizza_def party_pizza_def)

subsection \<open>Characters\<close>

lemma code_less_256: "code c < 256"
  by (simp add: code_def)

lemma code_inject: "code c = code d \<longleftrightarrow> c = d"
  by (simp add: code_def)

lemma code_char_of: "n < 256 \<Longrightarrow> code (char_of n) = n"
  by (simp add: code_def)

lemma code_lower_char:
  "code (lower_char c) =
     (if (65 \<le> code c \<and> code c \<le> 90) \<or> (192 \<le> code c \<and> code c \<le> 222 \<and> code c \<noteq> 215)
      then code c + 32 else code c)"
  by (simp add: lower_char_def code_char_of)

lemma eq_iff_code: "c = d \<longleftrightarrow> code c = code d"
  by (simp add: code_inject)

lemma lower_char_idem: "lower_char (lower_char c) = lower_char c"
  by (simp add: eq_iff_code [of "lower_char (lower_char c)"] code_lower_char)

lemma is_space_lower_char: "is_space (lower_char c) = is_space c"
  by (auto simp: is_space_def code_lower_char)

lemma float_space_lower_char: "float_space (lower_char c) = float_space c"
  by (auto simp: float_space_def code_lower_char)

lemma is_digit_lower_char: "is_digit (lower_char c) = is_digit c"
  by (auto simp: is_digit_def code_lower_char)

lemma lower_char_fixed: "code c < 65 \<or> (90 < code c \<and> code c < 192) \<Longrightarrow> lower_char c = c"
  by (auto simp: lower_char_def)

lemma lower_char_eq_low: "code d < 65 \<or> (90 < code d \<and> code d < 97) \<Longrightarrow> lower_char c = d \<longleftrightarrow> c = d"
  by (auto simp: eq_iff_code [of _ d] code_lower_char)

subsection \<open>The characters of a numeral\<close>

lemma literal_char_code:
  "literal_char c \<longleftrightarrow>
     \<not> is_space c \<and> code (lower_char c) \<noteq> 99 \<and> code (lower_char c) \<noteq> 109
       \<and> code (lower_char c) \<noteq> 120"
  by (simp add: literal_char_def eq_iff_code [of "lower_char c"] code_def)

lemma literal_dp_char: "is_dp_char c \<Longrightarrow> literal_char c"
  by (auto simp: literal_char_code is_dp_char_def is_digit_def is_space_def code_lower_char)
     (simp_all add: code_def)

lemma literal_signs: "literal_char CHR ''+''" "literal_char CHR ''-''" "literal_char CHR ''.''"
  by (simp_all add: literal_char_code is_space_def code_lower_char) (simp_all add: code_def)

lemma literal_by_lower:
  assumes "lower_char c = d" and "literal_char d"
  shows "literal_char c"
proof -
  have "is_space c = is_space d" using assms(1) is_space_lower_char [of c] by simp
  moreover have "lower_char d = lower_char c" using assms(1) lower_char_idem [of c] by simp
  ultimately show ?thesis using assms(2) by (simp add: literal_char_def)
qed

lemma literal_letters:
  "literal_char CHR ''e''" "literal_char CHR ''i''" "literal_char CHR ''n''"
  "literal_char CHR ''f''" "literal_char CHR ''t''" "literal_char CHR ''y''"
  "literal_char CHR ''a''"
  by (simp_all add: literal_char_code is_space_def code_lower_char) (simp_all add: code_def)

lemma valid_digitpart_chars: "valid_digitpart d \<Longrightarrow> \<forall>c\<in>set d. is_dp_char c"
  by (induction d rule: valid_digitpart.induct) (auto simp: is_dp_char_def split: if_splits)

lemma split_sign_chars:
  "split_sign s = (neg, r) \<Longrightarrow> \<forall>c\<in>set r. literal_char c \<Longrightarrow> \<forall>c\<in>set s. literal_char c"
  by (cases s) (auto simp: split_sign_def literal_signs split: if_splits)

lemma parse_exponent_chars:
  assumes "parse_exponent s = Some e"
  shows "\<forall>c\<in>set s. literal_char c"
proof (cases s)
  case Nil
  then show ?thesis by simp
next
  case (Cons c r)
  with assms have e: "lower_char c = CHR ''e''"
    by (auto simp: parse_exponent_def split: if_splits)
  obtain neg d where sd: "split_sign r = (neg, d)" by (cases "split_sign r")
  with assms Cons e have "valid_digitpart d"
    by (auto simp: parse_exponent_def split: if_splits)
  then have "\<forall>c\<in>set d. literal_char c"
    using valid_digitpart_chars literal_dp_char by blast
  with sd have "\<forall>c\<in>set r. literal_char c" by (rule split_sign_chars)
  moreover have "literal_char c" using e literal_letters(1) by (rule literal_by_lower)
  ultimately show ?thesis using Cons by simp
qed

lemma parse_number_chars:
  assumes "parse_number s = Some v"
  shows "\<forall>c\<in>set s. literal_char c"
proof -
  let ?ip = "takeWhile is_dp_char s" and ?r1 = "dropWhile is_dp_char s"
  have s: "s = ?ip @ ?r1" by simp
  have ip: "\<forall>c\<in>set ?ip. literal_char c"
    by (auto dest: set_takeWhileD intro: literal_dp_char)
  have "\<forall>c\<in>set ?r1. literal_char c"
  proof (cases ?r1)
    case Nil
    show ?thesis unfolding Nil by simp
  next
    case (Cons c r)
    show ?thesis
    proof (cases "c = CHR ''.''")
      case True
      let ?fp = "takeWhile is_dp_char r" and ?r2 = "dropWhile is_dp_char r"
      from assms Cons True obtain e where "parse_exponent ?r2 = Some e"
        by (auto simp: parse_number_def Let_def split: if_splits option.splits)
      then have "\<forall>c\<in>set ?r2. literal_char c" by (rule parse_exponent_chars)
      moreover have "\<forall>c\<in>set ?fp. literal_char c"
        by (auto dest: set_takeWhileD intro: literal_dp_char)
      moreover have "r = ?fp @ ?r2" by simp
      ultimately have "\<forall>c\<in>set r. literal_char c"
        by (metis Un_iff set_append)
      with Cons True show ?thesis by (simp add: literal_signs)
    next
      case False
      with assms Cons obtain e where "parse_exponent ?r1 = Some e"
        by (auto simp: parse_number_def Let_def split: if_splits option.splits)
      then show ?thesis by (rule parse_exponent_chars)
    qed
  qed
  with ip s show ?thesis by (metis Un_iff set_append)
qed

lemma parse_number_Nil: "parse_number [] = None"
  by (simp add: parse_number_def)

lemma word_chars:
  "lower r = ''inf'' \<or> lower r = ''infinity'' \<or> lower r = ''nan'' \<Longrightarrow> \<forall>c\<in>set r. literal_char c"
proof
  fix c assume a: "lower r = ''inf'' \<or> lower r = ''infinity'' \<or> lower r = ''nan''" and c: "c \<in> set r"
  then have "lower_char c \<in> set (lower r)" by (simp add: lower_def)
  with a have "lower_char c \<in> {CHR ''i'', CHR ''n'', CHR ''f'', CHR ''t'', CHR ''y'', CHR ''a''}"
    by auto
  then show "literal_char c"
    using literal_letters by (auto intro: literal_by_lower)
qed

lemma py_float_chars:
  assumes "py_float t = Inr v"
  shows "float_strip t \<noteq> [] \<and> (\<forall>c\<in>set (float_strip t). literal_char c)"
proof -
  obtain neg r where sr: "split_sign (float_strip t) = (neg, r)"
    by (cases "split_sign (float_strip t)")
  have r: "r \<noteq> [] \<and> (\<forall>c\<in>set r. literal_char c)"
  proof (cases "lower r = ''inf'' \<or> lower r = ''infinity'' \<or> lower r = ''nan''")
    case True
    then have "r \<noteq> []" by (auto simp: lower_def)
    with True word_chars show ?thesis by blast
  next
    case False
    with assms sr obtain x where x: "parse_number r = Some x"
      by (auto simp: py_float_def Let_def split: option.splits)
    then have "r \<noteq> []" using parse_number_Nil by auto
    with x parse_number_chars show ?thesis by blast
  qed
  then have "\<forall>c\<in>set (float_strip t). literal_char c"
    using sr split_sign_chars by blast
  moreover have "float_strip t \<noteq> []"
    using sr r by (auto simp: split_sign_def)
  ultimately show ?thesis by blast
qed
subsection \<open>\<^verbatim>\<open>float\<close> ignores the case of letters\<close>

lemma lower_lower: "lower (lower s) = lower s"
  by (simp add: lower_def lower_char_idem)

lemma lower_append: "lower (a @ b) = lower a @ lower b"
  by (simp add: lower_def)

lemma lower_char_digit: "is_digit c \<Longrightarrow> lower_char c = c"
  by (rule lower_char_fixed) (simp add: is_digit_def)

lemma lower_char_underscore: "lower_char c = CHR ''_'' \<longleftrightarrow> c = CHR ''_''"
  by (rule lower_char_eq_low) (simp add: code_def)

lemma lower_char_minus: "lower_char c = CHR ''-'' \<longleftrightarrow> c = CHR ''-''"
  by (rule lower_char_eq_low) (simp add: code_def)

lemma lower_char_plus: "lower_char c = CHR ''+'' \<longleftrightarrow> c = CHR ''+''"
  by (rule lower_char_eq_low) (simp add: code_def)

lemma lower_char_point: "lower_char c = CHR ''.'' \<longleftrightarrow> c = CHR ''.''"
  by (rule lower_char_eq_low) (simp add: code_def)

lemma is_dp_char_lower_char: "is_dp_char (lower_char c) = is_dp_char c"
  by (simp add: is_dp_char_def is_digit_lower_char lower_char_underscore)

lemma lower_char_dp: "is_dp_char c \<Longrightarrow> lower_char c = c"
  using lower_char_underscore [of c] by (auto simp: is_dp_char_def lower_char_digit)

lemma filter_digit_lower: "filter is_digit (lower d) = filter is_digit d"
  by (induction d) (auto simp: lower_def is_digit_lower_char lower_char_digit)

lemma digits_val_lower: "digits_val (lower d) = digits_val d"
  by (simp add: digits_val_def filter_digit_lower)

lemma frac_len_lower: "frac_len (lower d) = frac_len d"
  by (simp add: frac_len_def filter_digit_lower)

lemma valid_digitpart_lower: "valid_digitpart (lower d) = valid_digitpart d"
  by (induction d rule: valid_digitpart.induct)
     (simp_all add: lower_def is_digit_lower_char lower_char_underscore)

lemma takeWhile_dp_lower: "takeWhile is_dp_char (lower s) = takeWhile is_dp_char s"
  by (induction s) (auto simp: lower_def is_dp_char_lower_char lower_char_dp)

lemma dropWhile_dp_lower: "dropWhile is_dp_char (lower s) = lower (dropWhile is_dp_char s)"
  by (induction s) (auto simp: lower_def is_dp_char_lower_char)

lemma split_sign_lower:
  "split_sign (lower s) = (fst (split_sign s), lower (snd (split_sign s)))"
  by (cases s) (auto simp: split_sign_def lower_def lower_char_minus lower_char_plus)

lemma lower_Nil: "lower [] = []"
  by (simp add: lower_def)

lemma lower_Cons: "lower (c # r) = lower_char c # lower r"
  by (simp add: lower_def)

lemma parse_exponent_lower: "parse_exponent (lower s) = parse_exponent s"
proof (cases s)
  case Nil
  then show ?thesis by (simp add: lower_Nil)
next
  case (Cons c r)
  show ?thesis unfolding Cons lower_Cons
    by (simp add: parse_exponent_def lower_char_idem split_sign_lower split_beta
        valid_digitpart_lower digits_val_lower)
qed

lemma parse_number_lower: "parse_number (lower s) = parse_number s"
proof (cases "dropWhile is_dp_char s")
  case Nil
  show ?thesis
    unfolding parse_number_def takeWhile_dp_lower dropWhile_dp_lower Nil lower_Nil ..
next
  case (Cons c r)
  have e: "parse_exponent (lower_char c # lower r) = parse_exponent (c # r)"
    using parse_exponent_lower [of "c # r"] by (simp add: lower_Cons)
  show ?thesis
    unfolding parse_number_def takeWhile_dp_lower dropWhile_dp_lower Cons lower_Cons
    by (simp add: lower_char_point takeWhile_dp_lower dropWhile_dp_lower parse_exponent_lower e
        Let_def)
qed

lemma dropWhile_float_space_lower:
  "dropWhile float_space (lower s) = lower (dropWhile float_space s)"
  by (induction s) (auto simp: lower_def float_space_lower_char)

lemma float_strip_lower: "float_strip (lower s) = lower (float_strip s)"
  by (simp add: float_strip_def dropWhile_float_space_lower lower_def rev_map [symmetric])
     (simp add: dropWhile_float_space_lower [unfolded lower_def] rev_map)

lemma py_float_lower: "py_float (lower s) = py_float s"
  by (simp add: py_float_def float_strip_lower split_sign_lower split_beta lower_lower
      parse_number_lower Let_def split: option.split)
subsection \<open>Normalising a descriptor\<close>


lemma replace_cm_suffix:
  "CHR ''c'' \<notin> set p \<Longrightarrow> replace_cm (p @ CHR ''c'' # CHR ''m'' # r) = p @ replace_cm r"
proof (induction p)
  case Nil
  then show ?case by simp
next
  case (Cons a p)
  obtain d rest where "p @ CHR ''c'' # CHR ''m'' # r = d # rest"
    by (cases "p @ CHR ''c'' # CHR ''m'' # r") auto
  with Cons show ?case by auto
qed

lemma spaces_no_c: "\<forall>c\<in>set a. is_space c \<Longrightarrow> CHR ''c'' \<notin> set a"
  by (auto simp: is_space_def code_def)

lemma spaces_no_x: "\<forall>c\<in>set a. is_space c \<Longrightarrow> CHR ''x'' \<notin> set a"
  by (auto simp: is_space_def code_def)

lemma split_x_no_x: "CHR ''x'' \<notin> set q \<Longrightarrow> split_x q = [q]"
  by (induction q) auto

lemma split_x_first: "CHR ''x'' \<notin> set p \<Longrightarrow> split_x (p @ CHR ''x'' # q) = p # split_x q"
  by (induction p) auto

lemma strip_generic:
  assumes "\<forall>c\<in>set a. P c" and "\<forall>c\<in>set b. P c"
    and "core \<noteq> []" and "\<not> P (hd core)" and "\<not> P (last core)"
  shows "rev (dropWhile P (rev (dropWhile P (a @ core @ b)))) = core"
proof -
  have "dropWhile P (a @ core @ b) = dropWhile P (core @ b)"
    using assms(1) by (simp add: dropWhile_append2)
  also have "\<dots> = core @ b"
    using assms(3,4) by (cases core) auto
  finally have 1: "dropWhile P (a @ core @ b) = core @ b" .
  have "dropWhile P (rev (core @ b)) = dropWhile P (rev b @ rev core)" by simp
  also have "\<dots> = dropWhile P (rev core)"
    using assms(2) by (intro dropWhile_append2) simp
  also have "\<dots> = rev core"
    using assms(3,5) by (cases "rev core") (auto simp: last_rev [symmetric] hd_rev)
  finally show ?thesis using 1 by simp
qed

lemma strip_core:
  "\<forall>c\<in>set a. is_space c \<Longrightarrow> \<forall>c\<in>set b. is_space c \<Longrightarrow> core \<noteq> [] \<Longrightarrow>
   \<not> is_space (hd core) \<Longrightarrow> \<not> is_space (last core) \<Longrightarrow> strip (a @ core @ b) = core"
  unfolding strip_def by (rule strip_generic)

lemma float_strip_core:
  "\<forall>c\<in>set a. float_space c \<Longrightarrow> \<forall>c\<in>set b. float_space c \<Longrightarrow> core \<noteq> [] \<Longrightarrow>
   \<not> float_space (hd core) \<Longrightarrow> \<not> float_space (last core) \<Longrightarrow> float_strip (a @ core @ b) = core"
  unfolding float_strip_def by (rule strip_generic)

lemma float_strip_decomp:
  "\<exists>a b. t = a @ float_strip t @ b \<and> (\<forall>c\<in>set a. float_space c) \<and> (\<forall>c\<in>set b. float_space c)"
proof -
  let ?m = "dropWhile float_space t"
  let ?a = "takeWhile float_space t"
  let ?b = "rev (takeWhile float_space (rev ?m))"
  have "rev (rev ?m) = rev (takeWhile float_space (rev ?m) @ dropWhile float_space (rev ?m))"
    by (simp only: takeWhile_dropWhile_id)
  then have "?m = float_strip t @ ?b"
    by (simp only: rev_rev_ident rev_append float_strip_def)
  then have "t = ?a @ float_strip t @ ?b"
    by (metis takeWhile_dropWhile_id)
  moreover have "\<forall>c\<in>set ?a. float_space c" by (auto dest: set_takeWhileD)
  moreover have "\<forall>c\<in>set ?b. float_space c" by (auto dest: set_takeWhileD)
  ultimately show ?thesis by blast
qed

lemma float_space_is_space: "float_space c \<Longrightarrow> is_space c"
  by (auto simp: float_space_def is_space_def)

lemma lower_char_space: "is_space c \<Longrightarrow> lower_char c = c"
  by (rule lower_char_fixed) (auto simp: is_space_def)

lemma lower_spaces: "\<forall>c\<in>set a. is_space c \<Longrightarrow> lower a = a"
  by (induction a) (auto simp: lower_def lower_char_space)

lemma space_not_c: "is_space c \<Longrightarrow> c \<noteq> CHR ''c''"
  by (auto simp: is_space_def code_def)
lemma literal_core:
  assumes "py_float t = Inr v"
  obtains a b core where "lower t = a @ core @ b"
    and "\<forall>c\<in>set a. is_space c" and "\<forall>c\<in>set b. is_space c" and "core \<noteq> []"
    and "\<forall>c\<in>set core. \<not> is_space c" and "CHR ''c'' \<notin> set core"
    and "CHR ''x'' \<notin> set core" and "py_float core = Inr v"
proof -
  let ?fs = "float_strip t"
  obtain a b where t: "t = a @ ?fs @ b"
    and a: "\<forall>c\<in>set a. float_space c" and b: "\<forall>c\<in>set b. float_space c"
    using float_strip_decomp by blast
  have fs: "?fs \<noteq> []" and lit: "\<forall>c\<in>set ?fs. literal_char c"
    using py_float_chars [OF assms] by simp_all
  have sa: "\<forall>c\<in>set a. is_space c" and sb: "\<forall>c\<in>set b. is_space c"
    using a b float_space_is_space by blast+
  have "lower t = lower a @ lower ?fs @ lower b"
    using t by (metis lower_append)
  then have 1: "lower t = a @ lower ?fs @ b"
    using sa sb by (simp add: lower_spaces)
  have 2: "\<forall>c\<in>set (lower ?fs). \<not> is_space c"
    and 4: "CHR ''c'' \<notin> set (lower ?fs)" and 5: "CHR ''x'' \<notin> set (lower ?fs)"
    using lit by (auto simp: lower_def literal_char_def is_space_lower_char)
  have "hd ?fs \<in> set ?fs" "last ?fs \<in> set ?fs" using fs by simp_all
  then have "\<not> float_space (hd ?fs)" "\<not> float_space (last ?fs)"
    using lit float_space_is_space by (auto simp: literal_char_def)
  then have "float_strip ([] @ ?fs @ []) = ?fs"
    using fs by (intro float_strip_core) simp_all
  then have "py_float ?fs = py_float t" by (simp add: py_float_def)
  then have 3: "py_float (lower ?fs) = Inr v"
    using assms by (simp add: py_float_lower)
  have "lower ?fs \<noteq> []" using fs by (simp add: lower_def)
  then show ?thesis using 1 2 3 4 5 sa sb by (rule_tac that)
qed


lemma calculate_area_rectangle_text:
  assumes tw: "py_float tw = Inr w" and th: "py_float th = Inr h"
  shows "calculate_area (Str (tw @ ''x'' @ th @ ''cm'')) = Inr (fmul w h)"
proof -
  obtain a1 b1 cw where lw: "lower tw = a1 @ cw @ b1"
    and a1: "\<forall>c\<in>set a1. is_space c" and b1: "\<forall>c\<in>set b1. is_space c" and nw: "cw \<noteq> []"
    and pw: "\<forall>c\<in>set cw. \<not> is_space c"
    and ncw: "CHR ''c'' \<notin> set cw" and nxw: "CHR ''x'' \<notin> set cw"
    and fw: "py_float cw = Inr w"
    by (rule literal_core [OF tw])
  obtain a2 b2 ch where lh: "lower th = a2 @ ch @ b2"
    and a2: "\<forall>c\<in>set a2. is_space c" and b2: "\<forall>c\<in>set b2. is_space c" and nh: "ch \<noteq> []"
    and ph: "\<forall>c\<in>set ch. \<not> is_space c"
    and nch: "CHR ''c'' \<notin> set ch" and nxh: "CHR ''x'' \<notin> set ch"
    and fh: "py_float ch = Inr h"
    by (rule literal_core [OF th])
  let ?m = "(cw @ b1) @ CHR ''x'' # (a2 @ ch)"
  let ?p = "a1 @ ?m @ b2"
  have lx: "lower_char CHR ''x'' = CHR ''x''" "lower_char CHR ''c'' = CHR ''c''"
    "lower_char CHR ''m'' = CHR ''m''" by code_simp+
  have low: "lower (tw @ ''x'' @ th @ ''cm'') = ?p @ CHR ''c'' # CHR ''m'' # []"
    using lw lh lx by (simp add: lower_append lower_Cons lower_Nil)
  have pc: "CHR ''c'' \<notin> set ?p"
    using ncw nch spaces_no_c [OF a1] spaces_no_c [OF b1] spaces_no_c [OF a2] spaces_no_c [OF b2]
    by simp
  have "replace_cm (?p @ CHR ''c'' # CHR ''m'' # []) = ?p @ replace_cm []"
    by (rule replace_cm_suffix [OF pc])
  then have "replace_cm (?p @ CHR ''c'' # CHR ''m'' # []) = ?p @ []" by simp
  moreover have "hd ?m = hd cw" "last ?m = last ch" using nw nh by simp_all
  then have "strip (a1 @ ?m @ b2) = ?m"
    using a1 b2 nw nh pw ph by (intro strip_core) simp_all
  ultimately have norm: "strip (replace_cm (lower (tw @ ''x'' @ th @ ''cm''))) = ?m"
    unfolding low by simp
  have x1: "CHR ''x'' \<notin> set (cw @ b1)" and x2: "CHR ''x'' \<notin> set (a2 @ ch)"
    using nxw nxh spaces_no_x [OF b1] spaces_no_x [OF a2] by simp_all
  have "split_x ?m = (cw @ b1) # split_x (a2 @ ch)"
    by (rule split_x_first [OF x1])
  also have "split_x (a2 @ ch) = [a2 @ ch]"
    by (rule split_x_no_x [OF x2])
  finally have split: "split_x ?m = [cw @ b1, a2 @ ch]" .
  have s1: "strip ([] @ cw @ b1) = cw" using b1 nw pw by (intro strip_core) simp_all
  have s2: "strip (a2 @ ch @ []) = ch" using a2 nh ph by (intro strip_core) simp_all
  have x: "CHR ''x'' \<in> set ?m" by simp
  show ?thesis
    unfolding calculate_area_def size_arg.case norm Let_def split
    using fw fh s1 s2 x by (simp add: index_def)
qed
subsection \<open>Valid descriptors\<close>





subsection \<open>When \<^verbatim>\<open>_calculate_area\<close> raises\<close>




subsection \<open>The area of a descriptor\<close>



text \<open>
  Claim C5. For all positive \<open>w\<close> and \<open>h\<close>, the descriptor \<^verbatim>\<open>"{w}x{h}cm"\<close>, made of
  numerals that \<^verbatim>\<open>float\<close> reads as \<open>w\<close> and \<open>h\<close>, has the area \<open>w * h\<close>.
\<close>

theorem rectangle_descriptor_area:
  assumes "0 < w" and "0 < h"
    and "py_float tw = Inr (Finite w)" and "py_float th = Inr (Finite h)"
  shows "calculate_area (Str (tw @ ''x'' @ th @ ''cm'')) = Inr (Finite (w * h))"
  using calculate_area_rectangle_text [OF assms(3,4)] by simp
theorem rectangle_descriptor_area_witness:
  "(0::real) < 46 \<and> (0::real) < 33
   \<and> py_float ''46'' = Inr (Finite 46) \<and> py_float ''33'' = Inr (Finite 33)
   \<and> calculate_area (Str ''46x33cm'') = Inr (Finite 1518)"
  using rectangle_descriptor_area [of 46 33 "''46''" "''33''"] float_46 float_33
  by simp

end
